theory Spec2Isabelle
  imports Complex_Main "HOL-Library.Sublist"
begin

section \<open>JavaScript values, errors and strings\<close>

text \<open>
  The two TypeScript plugins are glue over a host (sidebar, tabs, timeline, window) that
  is not part of the sources. The model keeps the host as an explicit state: the few
  facts the callbacks read (is the sidebar visible, what does the user type into the
  prompt) and a log of every host call a callback makes, in order. An exception is a
  value: a callback returns \<open>Inl e\<close> together with the state it had reached.
\<close>

datatype js_error =
    Error string
  | SyntaxError
  | TypeError

text \<open>
  A value of TypeScript's \<open>unknown\<close>, as far as the command callbacks look at it:
  \<open>undefined\<close>, \<open>null\<close>, a bigint, or a value of any other type. For the latter the model
  keeps what a template literal makes of it: \<open>Inr s\<close> when its string conversion yields
  \<open>s\<close>, \<open>Inl e\<close> when the conversion itself throws \<open>e\<close> (a symbol, an object whose
  \<open>toString\<close> throws). Only \<open>JBigInt\<close> has \<open>typeof v === 'bigint'\<close>.
\<close>

datatype js_value =
    JUndefined
  | JNull
  | JBigInt int
  | JOther "js_error + string"

definition digit_char :: "nat \<Rightarrow> char" where
  "digit_char d = ''0123456789'' ! (d mod 10)"

text \<open>The decimal digits of a bigint, as its \<open>toString\<close> gives them.\<close>

fun decimal_digits :: "nat \<Rightarrow> string \<Rightarrow> string" where
  "decimal_digits n acc =
     (if n < 10 then digit_char n # acc
      else decimal_digits (n div 10) (digit_char (n mod 10) # acc))"

definition BigInt_toString :: "int \<Rightarrow> string" where
  "BigInt_toString i =
     (if 0 \<le> i then decimal_digits (nat i) [] else CHR ''-'' # decimal_digits (nat (- i)) [])"

text \<open>The string a template literal \<open>`${v}`\<close> puts in place of \<open>v\<close>, or the error it throws.\<close>

definition template_string :: "js_value \<Rightarrow> js_error + string" where
  "template_string v =
     (case v of
        JUndefined \<Rightarrow> Inr ''undefined''
      | JNull \<Rightarrow> Inr ''null''
      | JBigInt n \<Rightarrow> Inr (BigInt_toString n)
      | JOther r \<Rightarrow> r)"

text \<open>
  Modelled from the spec: \<open>exists\<close> of \<open>base/utils\<close> is imported by the plugin and is not
  among the sources; the callback's contract reads it as "defined: neither null nor
  undefined".
\<close>

definition exists_js :: "js_value \<Rightarrow> bool" where
  "exists_js v = (v \<noteq> JUndefined \<and> v \<noteq> JNull)"

type_synonym time = int

text \<open>
  What the plugin takes from outside the sources: the built-in conversion
  \<open>BigInt(string)\<close>, which returns the integer or throws, and \<open>Time.fromRaw\<close> of
  \<open>base/time\<close>, which brands a bigint as a \<open>time\<close>. Both are parameters of the model.
\<close>

record externals =
  BigInt :: "string \<Rightarrow> js_error + int"
  Time_fromRaw :: "int \<Rightarrow> time"

subsection \<open>A reference conversion\<close>

text \<open>
  ECMAScript's StringToBigInt: surrounding white space is dropped; the empty string is
  \<open>0n\<close>; otherwise the text is decimal digits with an optional sign, or unsigned binary,
  octal or hexadecimal digits after \<open>0b\<close>, \<open>0o\<close>, \<open>0x\<close>. Anything else is a
  SyntaxError. A \<open>char\<close> stands for the code unit of its number, so the strings of the
  model are the JavaScript strings of code units below 256. Among those the white space
  and line terminator characters are TAB, LF, VT, FF, CR, SPACE and NO-BREAK SPACE
  (U+00A0). The conversion instantiates the parameter \<open>BigInt\<close> where a concrete one is
  needed.
\<close>

definition is_StrWhiteSpaceChar :: "char \<Rightarrow> bool" where
  "is_StrWhiteSpaceChar c =
     (c \<in> set [CHR 0x09, CHR 0x0A, CHR 0x0B, CHR 0x0C, CHR 0x0D, CHR 0x20, CHR 0xA0])"

definition trim_js :: "string \<Rightarrow> string" where
  "trim_js s = rev (dropWhile is_StrWhiteSpaceChar (rev (dropWhile is_StrWhiteSpaceChar s)))"

definition digit_value :: "char \<Rightarrow> nat option" where
  "digit_value c =
     (let n = (of_char c :: nat) in
      if 48 \<le> n \<and> n \<le> 57 then Some (n - 48)
      else if 97 \<le> n \<and> n \<le> 102 then Some (n - 87)
      else if 65 \<le> n \<and> n \<le> 70 then Some (n - 55)
      else None)"

fun parse_digits :: "nat \<Rightarrow> nat \<Rightarrow> string \<Rightarrow> nat option" where
  "parse_digits b acc [] = Some acc"
| "parse_digits b acc (c # cs) =
     (case digit_value c of
        None \<Rightarrow> None
      | Some d \<Rightarrow> if d < b then parse_digits b (acc * b + d) cs else None)"

definition Digits :: "nat \<Rightarrow> string \<Rightarrow> int option" where
  "Digits b cs = (if cs = [] then None else map_option int (parse_digits b 0 cs))"

definition StrIntegerLiteral :: "string \<Rightarrow> int option" where
  "StrIntegerLiteral t =
     (if take 2 t = ''0b'' \<or> take 2 t = ''0B'' then Digits 2 (drop 2 t)
      else if take 2 t = ''0o'' \<or> take 2 t = ''0O'' then Digits 8 (drop 2 t)
      else if take 2 t = ''0x'' \<or> take 2 t = ''0X'' then Digits 16 (drop 2 t)
      else if take 1 t = ''+'' then Digits 10 (drop 1 t)
      else if take 1 t = ''-'' then map_option uminus (Digits 10 (drop 1 t))
      else Digits 10 t)"

definition StringToBigInt :: "string \<Rightarrow> js_error + int" where
  "StringToBigInt s =
     (let t = trim_js s in
      if t = [] then Inr 0
      else (case StrIntegerLiteral t of None \<Rightarrow> Inl SyntaxError | Some n \<Rightarrow> Inr n))"

definition reference_externals :: externals where
  "reference_externals = \<lparr>BigInt = StringToBigInt, Time_fromRaw = (\<lambda>v. v)\<rparr>"

section \<open>The plugin host\<close>

record tags =
  tags_name :: "string option"

datatype host_call =
    Sidebar_isVisible
  | Sidebar_hide
  | Sidebar_show
  | Tabs_openQuery string string
  | Timeline_pinTracksByPredicate "tags \<Rightarrow> bool"
  | Timeline_unpinTracksByPredicate "tags \<Rightarrow> bool"
  | Timeline_panToTimestamp time
  | Window_prompt string
  | Window_alert string

text \<open>
  \<open>sidebarVisible\<close> is what \<open>ctx.sidebar.isVisible()\<close> answers; \<open>promptInput\<close> is what the
  user does with the next \<open>window.prompt\<close>: \<open>Some s\<close> for the text entered, \<open>None\<close> for
  Cancel (the prompt returns \<open>null\<close>); \<open>calls\<close> is the log of host calls, oldest first.
\<close>

record ctx_state =
  sidebarVisible :: bool
  promptInput :: "string option"
  calls :: "host_call list"

definition called :: "host_call \<Rightarrow> ctx_state \<Rightarrow> ctx_state" where
  "called c s = s\<lparr>calls := calls s @ [c]\<rparr>"

text \<open>
  Modelled from the spec: the host's sidebar ("sidebar visibility toggle") is not among
  the sources. \<open>hide\<close> and \<open>show\<close> set the visibility that \<open>isVisible\<close> reports.
\<close>

definition sidebar_isVisible :: "ctx_state \<Rightarrow> bool \<times> ctx_state" where
  "sidebar_isVisible s = (sidebarVisible s, called Sidebar_isVisible s)"

definition sidebar_hide :: "ctx_state \<Rightarrow> ctx_state" where
  "sidebar_hide s = called Sidebar_hide (s\<lparr>sidebarVisible := False\<rparr>)"

definition sidebar_show :: "ctx_state \<Rightarrow> ctx_state" where
  "sidebar_show s = called Sidebar_show (s\<lparr>sidebarVisible := True\<rparr>)"

definition tabs_openQuery :: "string \<Rightarrow> string \<Rightarrow> ctx_state \<Rightarrow> ctx_state" where
  "tabs_openQuery query title s = called (Tabs_openQuery query title) s"

definition timeline_pinTracksByPredicate :: "(tags \<Rightarrow> bool) \<Rightarrow> ctx_state \<Rightarrow> ctx_state" where
  "timeline_pinTracksByPredicate p s = called (Timeline_pinTracksByPredicate p) s"

definition timeline_unpinTracksByPredicate :: "(tags \<Rightarrow> bool) \<Rightarrow> ctx_state \<Rightarrow> ctx_state" where
  "timeline_unpinTracksByPredicate p s = called (Timeline_unpinTracksByPredicate p) s"

definition timeline_panToTimestamp :: "time \<Rightarrow> ctx_state \<Rightarrow> ctx_state" where
  "timeline_panToTimestamp ts s = called (Timeline_panToTimestamp ts) s"

definition window_prompt :: "string \<Rightarrow> ctx_state \<Rightarrow> string option \<times> ctx_state" where
  "window_prompt message s = (promptInput s, called (Window_prompt message) s)"

definition window_alert :: "string \<Rightarrow> ctx_state \<Rightarrow> ctx_state" where
  "window_alert message s = called (Window_alert message) s"

text \<open>The host calls of one kind in a log.\<close>

definition pans :: "host_call list \<Rightarrow> time list" where
  "pans cs = concat (map (\<lambda>c. case c of Timeline_panToTimestamp t \<Rightarrow> [t] | _ \<Rightarrow> []) cs)"

definition alerts :: "host_call list \<Rightarrow> string list" where
  "alerts cs = concat (map (\<lambda>c. case c of Window_alert m \<Rightarrow> [m] | _ \<Rightarrow> []) cs)"

definition prompts :: "host_call list \<Rightarrow> string list" where
  "prompts cs = concat (map (\<lambda>c. case c of Window_prompt m \<Rightarrow> [m] | _ \<Rightarrow> []) cs)"

section \<open>dev.perfetto.CoreCommands\<close>

definition lines :: "string list \<Rightarrow> string" where
  "lines ls = concat (map (\<lambda>l. CHR 0x0A # l) ls)"

definition SQL_STATS :: string where
  "SQL_STATS = lines
     [''with first as (select started as ts from sqlstats limit 1)'',
      ''select'',
      ''    round((max(ended - started, 0))/1e6) as runtime_ms,'',
      ''    round((started - first.ts)/1e6) as t_start_ms,'',
      ''    query'',
      ''from sqlstats, first'',
      ''order by started desc'']"

definition ALL_PROCESSES_QUERY :: string where
  "ALL_PROCESSES_QUERY = ''select name, pid from process order by name;''"

definition CPU_TIME_FOR_PROCESSES :: string where
  "CPU_TIME_FOR_PROCESSES = lines
     [''select'',
      ''  process.name,'',
      ''  sum(dur)/1e9 as cpu_sec'',
      ''from sched'',
      ''join thread using(utid)'',
      ''join process using(upid)'',
      ''group by upid'',
      ''order by cpu_sec desc'',
      ''limit 100;'']"

definition CYCLES_PER_P_STATE_PER_CPU :: string where
  "CYCLES_PER_P_STATE_PER_CPU = lines
     [''select'',
      ''  cpu,'',
      ''  freq,'',
      ''  dur,'',
      ''  sum(dur * freq)/1e6 as mcycles'',
      ''from ('',
      ''  select'',
      ''    cpu,'',
      ''    value as freq,'',
      ''    lead(ts) over (partition by cpu order by ts) - ts as dur'',
      ''  from counter'',
      ''  inner join cpu_counter_track on counter.track_id = cpu_counter_track.id'',
      ''  where name = '' @ [CHR 0x27] @ ''cpufreq'' @ [CHR 0x27],
      '') group by cpu, freq'',
      ''order by mcycles desc limit 32;'']"

definition CPU_TIME_BY_CPU_BY_PROCESS :: string where
  "CPU_TIME_BY_CPU_BY_PROCESS = lines
     [''select'',
      ''  process.name as process,'',
      ''  thread.name as thread,'',
      ''  cpu,'',
      ''  sum(dur) / 1e9 as cpu_sec'',
      ''from sched'',
      ''inner join thread using(utid)'',
      ''inner join process using(upid)'',
      ''group by utid, cpu'',
      ''order by cpu_sec desc'',
      ''limit 30;'']"

definition HEAP_GRAPH_BYTES_PER_TYPE :: string where
  "HEAP_GRAPH_BYTES_PER_TYPE = lines
     [''select'',
      ''  o.upid,'',
      ''  o.graph_sample_ts,'',
      ''  c.name,'',
      ''  sum(o.self_size) as total_self_size'',
      ''from heap_graph_object o join heap_graph_class c on o.type_id = c.id'',
      ''group by'',
      '' o.upid,'',
      '' o.graph_sample_ts,'',
      '' c.name'',
      ''order by total_self_size desc'',
      ''limit 100;'']"

text \<open>
  A command as \<open>ctx.registerCommand\<close> receives it. A callback gets the argument the
  command was run with (\<open>JUndefined\<close> when it was run without one) and the host state; it
  returns normally (\<open>Inr ()\<close>) or throws (\<open>Inl e\<close>), with the state it left behind.
\<close>

type_synonym callback_result = "(js_error + unit) \<times> ctx_state"

record command =
  cmd_id :: string
  cmd_name :: string
  callback :: "js_value \<Rightarrow> ctx_state \<Rightarrow> callback_result"
  defaultHotkey :: "string option"

definition promptForTimestamp :: "externals \<Rightarrow> string \<Rightarrow> ctx_state \<Rightarrow> time option \<times> ctx_state" where
  "promptForTimestamp imp message s =
     (let (tsStr, s1) = window_prompt message s in
      case tsStr of
        Some str \<Rightarrow>
          (case BigInt imp str of
             Inr n \<Rightarrow> (Some (Time_fromRaw imp n), s1)
           | Inl e \<Rightarrow> (None, window_alert (str @ '' is not an integer'') s1))
      | None \<Rightarrow> (None, s1))"

definition ToggleLeftSidebar_callback :: "js_value \<Rightarrow> ctx_state \<Rightarrow> callback_result" where
  "ToggleLeftSidebar_callback args s =
     (let (visible, s1) = sidebar_isVisible s in
      if visible then (Inr (), sidebar_hide s1) else (Inr (), sidebar_show s1))"

definition PinFtraceTracks_predicate :: "tags \<Rightarrow> bool" where
  "PinFtraceTracks_predicate t =
     (case tags_name t of None \<Rightarrow> False | Some n \<Rightarrow> prefix ''Ftrace Events Cpu '' n)"

definition PanToTimestamp_callback :: "externals \<Rightarrow> js_value \<Rightarrow> ctx_state \<Rightarrow> callback_result" where
  "PanToTimestamp_callback imp tsRaw s =
     (if exists_js tsRaw then
        (case tsRaw of
           JBigInt n \<Rightarrow> (Inr (), timeline_panToTimestamp (Time_fromRaw imp n) s)
         | _ \<Rightarrow>
           (case template_string tsRaw of
              Inl e \<Rightarrow> (Inl e, s)
            | Inr str \<Rightarrow> (Inl (Error (str @ '' is not a bigint'')), s)))
      else
        (let (ts, s1) = promptForTimestamp imp ''Enter a timestamp'' s in
         case ts of
           Some t \<Rightarrow> (Inr (), timeline_panToTimestamp (Time_fromRaw imp t) s1)
         | None \<Rightarrow> (Inr (), s1)))"

definition ToggleLeftSidebar :: command where
  "ToggleLeftSidebar =
     \<lparr>cmd_id = ''dev.perfetto.CoreCommands#ToggleLeftSidebar'',
      cmd_name = ''Toggle left sidebar'',
      callback = ToggleLeftSidebar_callback,
      defaultHotkey = Some ''!Mod+B''\<rparr>"

definition RunQueryAllProcesses :: command where
  "RunQueryAllProcesses =
     \<lparr>cmd_id = ''dev.perfetto.CoreCommands#RunQueryAllProcesses'',
      cmd_name = ''Run query: all processes'',
      callback = (\<lambda>args s. (Inr (), tabs_openQuery ALL_PROCESSES_QUERY ''All Processes'' s)),
      defaultHotkey = None\<rparr>"

definition RunQueryCpuTimeByProcess :: command where
  "RunQueryCpuTimeByProcess =
     \<lparr>cmd_id = ''dev.perfetto.CoreCommands#RunQueryCpuTimeByProcess'',
      cmd_name = ''Run query: CPU time by process'',
      callback = (\<lambda>args s. (Inr (), tabs_openQuery CPU_TIME_FOR_PROCESSES ''CPU time by process'' s)),
      defaultHotkey = None\<rparr>"

definition RunQueryCyclesByStateByCpu :: command where
  "RunQueryCyclesByStateByCpu =
     \<lparr>cmd_id = ''dev.perfetto.CoreCommands#RunQueryCyclesByStateByCpu'',
      cmd_name = ''Run query: cycles by p-state by CPU'',
      callback = (\<lambda>args s.
        (Inr (), tabs_openQuery CYCLES_PER_P_STATE_PER_CPU ''Cycles by p-state by CPU'' s)),
      defaultHotkey = None\<rparr>"

definition RunQueryCyclesByCpuByProcess :: command where
  "RunQueryCyclesByCpuByProcess =
     \<lparr>cmd_id = ''dev.perfetto.CoreCommands#RunQueryCyclesByCpuByProcess'',
      cmd_name = ''Run query: CPU Time by CPU by process'',
      callback = (\<lambda>args s.
        (Inr (), tabs_openQuery CPU_TIME_BY_CPU_BY_PROCESS ''CPU Time by CPU by process'' s)),
      defaultHotkey = None\<rparr>"

definition RunQueryHeapGraphBytesPerType :: command where
  "RunQueryHeapGraphBytesPerType =
     \<lparr>cmd_id = ''dev.perfetto.CoreCommands#RunQueryHeapGraphBytesPerType'',
      cmd_name = ''Run query: heap graph bytes per type'',
      callback = (\<lambda>args s.
        (Inr (), tabs_openQuery HEAP_GRAPH_BYTES_PER_TYPE ''Heap graph bytes per type'' s)),
      defaultHotkey = None\<rparr>"

definition DebugSqlPerformance :: command where
  "DebugSqlPerformance =
     \<lparr>cmd_id = ''dev.perfetto.CoreCommands#DebugSqlPerformance'',
      cmd_name = ''Debug SQL performance'',
      callback = (\<lambda>args s. (Inr (), tabs_openQuery SQL_STATS ''Recent SQL queries'' s)),
      defaultHotkey = None\<rparr>"

definition PinFtraceTracks :: command where
  "PinFtraceTracks =
     \<lparr>cmd_id = ''dev.perfetto.CoreCommands#PinFtraceTracks'',
      cmd_name = ''Pin ftrace tracks'',
      callback = (\<lambda>args s. (Inr (), timeline_pinTracksByPredicate PinFtraceTracks_predicate s)),
      defaultHotkey = None\<rparr>"

definition UnpinAllTracks :: command where
  "UnpinAllTracks =
     \<lparr>cmd_id = ''dev.perfetto.CoreCommands#UnpinAllTracks'',
      cmd_name = ''Unpin all tracks'',
      callback = (\<lambda>args s. (Inr (), timeline_unpinTracksByPredicate (\<lambda>_. True) s)),
      defaultHotkey = None\<rparr>"

definition PanToTimestamp :: "externals \<Rightarrow> command" where
  "PanToTimestamp imp =
     \<lparr>cmd_id = ''dev.perfetto.CoreCommands#PanToTimestamp'',
      cmd_name = ''Pan To Timestamp'',
      callback = PanToTimestamp_callback imp,
      defaultHotkey = None\<rparr>"

text \<open>
  \<open>ctx.registerCommand\<close> belongs to the host; the model keeps the commands it was given,
  in the order of the calls. \<open>onTraceLoad\<close> makes its calls in the order of the source.
\<close>

definition registerCommand :: "command \<Rightarrow> command list \<Rightarrow> command list" where
  "registerCommand c registered = registered @ [c]"

definition coreCommands_onTraceLoad :: "externals \<Rightarrow> command list \<Rightarrow> command list" where
  "coreCommands_onTraceLoad imp registered =
     fold registerCommand
       [ToggleLeftSidebar,
        RunQueryAllProcesses,
        RunQueryCpuTimeByProcess,
        RunQueryCyclesByStateByCpu,
        RunQueryCyclesByCpuByProcess,
        RunQueryHeapGraphBytesPerType,
        DebugSqlPerformance,
        PinFtraceTracks,
        UnpinAllTracks,
        PanToTimestamp imp]
       registered"

section \<open>perfetto.DebugSlices\<close>

text \<open>
  The plugin registers two tracks and one details panel. The engine (\<open>ctx.engine\<close>, type
  \<open>'e\<close>), a track's context (\<open>trackCtx\<close>, type \<open>'c\<close>) and a details panel's
  configuration (type \<open>'g\<close>) are opaque to it. Two constants come from files that are not
  among the sources and are parameters here: \<open>DEBUG_SLICE_TRACK_URI\<close> of
  \<open>frontend/debug_tracks\<close> and the static \<open>DebugSliceDetailsTab.kind\<close> of \<open>details_tab\<close>.
  \<open>uuidv4()\<close> is random: the identifier it returns is an input of the factory.
\<close>

definition DEBUG_COUNTER_TRACK_URI :: string where
  "DEBUG_COUNTER_TRACK_URI = ''perfetto.DebugCounter''"

datatype ('e, 'c) track_instance =
    DebugTrackV2 'e 'c
  | DebugCounterTrack 'e 'c

record ('e, 'c) track_registration =
  uri :: string
  track :: "'c \<Rightarrow> ('e, 'c) track_instance"

record 'g details_panel_config =
  panel_kind :: string
  panel_config :: 'g

text \<open>
  A selection, as the factory reads it: the \<open>kind\<close> discriminant and, on the members of
  the union that have one, \<open>detailsPanelConfig\<close>. The type of a generic-slice selection
  declares the field, which \<open>well_typed_selection\<close> says; reading a property of a missing
  \<open>detailsPanelConfig\<close> would throw a TypeError.
\<close>

record 'g selection =
  kind :: string
  detailsPanelConfig :: "'g details_panel_config option"

definition well_typed_selection :: "'g selection \<Rightarrow> bool" where
  "well_typed_selection sel = (kind sel = ''GENERIC_SLICE'' \<longrightarrow> detailsPanelConfig sel \<noteq> None)"

datatype ('g, 'e) details_tab =
    DebugSliceDetailsTab (tab_config: 'g) (tab_engine: 'e) (tab_uuid: string)

definition tabFactory ::
  "string \<Rightarrow> 'e \<Rightarrow> string \<Rightarrow> 'g selection \<Rightarrow> js_error + ('g, 'e) details_tab option" where
  "tabFactory DebugSliceDetailsTab_kind engine uuidv4 sel =
     (if kind sel = ''GENERIC_SLICE'' then
        (case detailsPanelConfig sel of
           None \<Rightarrow> Inl TypeError
         | Some dpc \<Rightarrow>
             if panel_kind dpc = DebugSliceDetailsTab_kind
             then Inr (Some (DebugSliceDetailsTab (panel_config dpc) engine uuidv4))
             else Inr None)
      else Inr None)"

datatype ('g, 'e) details_panel =
    BottomTabToSCSAdapter "string \<Rightarrow> 'g selection \<Rightarrow> js_error + ('g, 'e) details_tab option"

record ('e, 'c, 'g) registry =
  tracks :: "('e, 'c) track_registration list"
  detailsPanels :: "('g, 'e) details_panel list"

definition registerTrack ::
  "('e, 'c) track_registration \<Rightarrow> ('e, 'c, 'g) registry \<Rightarrow> ('e, 'c, 'g) registry" where
  "registerTrack t r = r\<lparr>tracks := tracks r @ [t]\<rparr>"

definition registerDetailsPanel ::
  "('g, 'e) details_panel \<Rightarrow> ('e, 'c, 'g) registry \<Rightarrow> ('e, 'c, 'g) registry" where
  "registerDetailsPanel p r = r\<lparr>detailsPanels := detailsPanels r @ [p]\<rparr>"

definition DebugTrackPlugin_onTraceLoad ::
  "string \<Rightarrow> string \<Rightarrow> 'e \<Rightarrow> ('e, 'c, 'g) registry \<Rightarrow> ('e, 'c, 'g) registry" where
  "DebugTrackPlugin_onTraceLoad DEBUG_SLICE_TRACK_URI DebugSliceDetailsTab_kind engine r =
     (let r1 = registerTrack
                 \<lparr>uri = DEBUG_SLICE_TRACK_URI, track = (\<lambda>trackCtx. DebugTrackV2 engine trackCtx)\<rparr> r;
          r2 = registerDetailsPanel
                 (BottomTabToSCSAdapter (tabFactory DebugSliceDetailsTab_kind engine)) r1;
          r3 = registerTrack
                 \<lparr>uri = DEBUG_COUNTER_TRACK_URI,
                  track = (\<lambda>trackCtx. DebugCounterTrack engine trackCtx)\<rparr> r2
      in r3)"

section \<open>JavaOomActivity\<close>

text \<open>
  Java statements are computations on the virtual machine that return a value (\<open>Inr\<close>)
  or end with a throwable (\<open>Inl\<close>). The machine is what the activity can observe of it:
  \<open>can_allocate n\<close>, whether it can provide an array of \<open>n\<close> bytes, and the events so
  far, oldest first, which the primitives below record: the framework calls, every array
  allocation asked for, every throwable thrown and every one caught.
\<close>

datatype java_throwable =
    OutOfMemoryError
  | NegativeArraySizeException

text \<open>The \<open>Runnable\<close> objects of the program: the lambda of lines 26 to 39.\<close>

datatype runnable = OomLambda

datatype 'b java_event =
    Activity_onCreate 'b
  | Thread_start runnable
  | NewByteArray int
  | Thrown java_throwable
  | Caught java_throwable

record 'b jvm =
  can_allocate :: "int \<Rightarrow> bool"
  events :: "'b java_event list"

type_synonym ('b, 'a) java = "'b jvm \<Rightarrow> (java_throwable + 'a) \<times> 'b jvm"

definition happened :: "'b java_event \<Rightarrow> 'b jvm \<Rightarrow> 'b jvm" where
  "happened ev m = m\<lparr>events := events m @ [ev]\<rparr>"

text \<open>
  Sequencing stops at the first throwable. \<open>try_catch body catches handler\<close> is
  \<open>try { body } catch (C e) { handler }\<close>, where \<open>catches\<close> says which throwables are of
  class \<open>C\<close>; any other throwable leaves the statement.
\<close>

definition jreturn :: "'a \<Rightarrow> ('b, 'a) java" where
  "jreturn x m = (Inr x, m)"

definition jthrow :: "java_throwable \<Rightarrow> ('b, 'a) java" where
  "jthrow e m = (Inl e, happened (Thrown e) m)"

definition jbind :: "('b, 'a) java \<Rightarrow> ('a \<Rightarrow> ('b, 'c) java) \<Rightarrow> ('b, 'c) java" where
  "jbind c f m = (case c m of (Inl e, m1) \<Rightarrow> (Inl e, m1) | (Inr x, m1) \<Rightarrow> f x m1)"

definition try_catch ::
  "('b, 'a) java \<Rightarrow> (java_throwable \<Rightarrow> bool) \<Rightarrow> (java_throwable \<Rightarrow> ('b, 'a) java) \<Rightarrow> ('b, 'a) java" where
  "try_catch body catches handler m =
     (case body m of
        (Inr x, m1) \<Rightarrow> (Inr x, m1)
      | (Inl e, m1) \<Rightarrow> if catches e then handler e (happened (Caught e) m1) else (Inl e, m1))"

definition Integer_MAX_VALUE :: int where
  "Integer_MAX_VALUE = 2 ^ 31 - 1"

text \<open>
  \<open>new byte[n]\<close> throws NegativeArraySizeException for a negative length and
  OutOfMemoryError when the machine cannot provide the array. The array is not used: the
  computation returns its length.
\<close>

definition new_byte_array :: "int \<Rightarrow> ('b, int) java" where
  "new_byte_array n m =
     (let m1 = happened (NewByteArray n) m in
      if n < 0 then jthrow NegativeArraySizeException m1
      else if can_allocate m1 n then jreturn n m1
      else jthrow OutOfMemoryError m1)"

text \<open>
  The body of the lambda. The \<open>return\<close> after the allocation ends the body normally.
\<close>

definition oom_lambda :: "('b, unit) java" where
  "oom_lambda =
     try_catch
       (jbind (new_byte_array Integer_MAX_VALUE) (\<lambda>alloc. jreturn ()))
       (\<lambda>e. e = OutOfMemoryError)
       (\<lambda>e. jreturn ())"

fun run :: "runnable \<Rightarrow> ('b, unit) java" where
  "run OomLambda = oom_lambda"

text \<open>
  A started thread runs its runnable: \<open>run\<close> returns, or a throwable leaves it uncaught
  and ends that thread. Either way nothing returns to the thread that called \<open>start\<close>.
\<close>

datatype thread_end =
    Returned
  | Uncaught java_throwable

definition thread_run :: "runnable \<Rightarrow> 'b jvm \<Rightarrow> thread_end \<times> 'b jvm" where
  "thread_run r m = (case run r m of (Inr u, m1) \<Rightarrow> (Returned, m1) | (Inl e, m1) \<Rightarrow> (Uncaught e, m1))"

text \<open>
  \<open>Activity.onCreate\<close> and \<open>Thread.start\<close> belong to the Android framework and the Java
  runtime; each is recorded as a call that returns. \<open>onCreate\<close> is their sequence.
\<close>

definition super_onCreate :: "'b \<Rightarrow> ('b, unit) java" where
  "super_onCreate state m = jreturn () (happened (Activity_onCreate state) m)"

definition new_Thread_start :: "runnable \<Rightarrow> ('b, unit) java" where
  "new_Thread_start r m = jreturn () (happened (Thread_start r) m)"

definition onCreate :: "'b \<Rightarrow> ('b, unit) java" where
  "onCreate state = jbind (super_onCreate state) (\<lambda>u. new_Thread_start OomLambda)"

definition started_threads :: "'b java_event list \<Rightarrow> runnable list" where
  "started_threads evs = concat (map (\<lambda>ev. case ev of Thread_start r \<Rightarrow> [r] | _ \<Rightarrow> []) evs)"

section \<open>The query-result validator of the specification\<close>

text \<open>
  Modelled from the spec: the QueryResultValidator (section 4.1, with the data model of
  section 3, the overlap rule that section 4.3 assigns to it and the error taxonomy of
  section 7) has no code among the sources. A raw row is an ordered mapping from column
  name to scalar value; a slice track requires \<open>ts\<close> (int64), \<open>dur\<close> (int64, not
  negative) and \<open>name\<close> (string), a counter track \<open>ts\<close> (int64) and \<open>value\<close> (float64). A
  row that lacks a required column, holds a value that does not coerce to the column's
  kind, has a negative \<open>dur\<close> or overlaps another slice at the same nesting depth (slice
  tracks) is a row-level ValidationError, recorded with the row's index. Under the
  default policy the offending rows are logged and left out of the validated rows; under
  the strict policy the whole window fails.
\<close>

datatype scalar =
    IntVal int
  | FloatVal real
  | StringVal string
  | NullVal

type_synonym QueryResultRow = "(string \<times> scalar) list"






















subsection \<open>The validator's contract, in the words of the specification\<close>






section \<open>The track data cache of the specification\<close>

text \<open>
  Modelled from the spec: the TrackDataCache (section 4.2) and its ordering rule (section
  5) have no code among the sources. A cache key is the pair of query text hash and track
  URI. A \<open>get\<close> whose visible range lies in the cached window, or in the window of the
  fetch in flight for its key, issues no query; any other \<open>get\<close> issues one fetch for the
  overscanned window, which becomes the latest request in flight for the key. A
  completion commits its rows only while its own request is the latest in flight for
  its key and is discarded otherwise; a failure leaves the cached window in place; the
  destruction of a track marks the fetch in flight for its key irrelevant. Request
  identifiers count the fetches issued, so an earlier fetch has the smaller identifier.
\<close>

type_synonym cache_key = "string \<times> string"

record time_range =
  range_start :: int
  range_end :: int

definition range_within :: "time_range \<Rightarrow> time_range \<Rightarrow> bool" where
  "range_within r outer = (range_start outer \<le> range_start r \<and> range_end r \<le> range_end outer)"

record CachedWindow =
  window_range :: time_range
  window_rows :: "QueryResultRow list"

record fetch =
  fetch_id :: nat
  fetch_key :: cache_key
  fetch_window :: time_range

record cache_state =
  cache :: "cache_key \<Rightarrow> CachedWindow option"
  inflight :: "cache_key \<Rightarrow> fetch option"
  executions :: "fetch list"

definition empty_cache :: cache_state where
  "empty_cache = \<lparr>cache = (\<lambda>_. None), inflight = (\<lambda>_. None), executions = []\<rparr>"

datatype cache_event =
    Get cache_key time_range
  | Complete cache_key nat "QueryResultRow list"
  | Fail cache_key nat
  | Destroy cache_key

definition overscan :: "nat \<Rightarrow> time_range \<Rightarrow> time_range" where
  "overscan factor visible =
     (let width = range_end visible - range_start visible;
          margin = (int factor * width - width) div 2
      in \<lparr>range_start = range_start visible - margin, range_end = range_end visible + margin\<rparr>)"

definition covered :: "cache_state \<Rightarrow> cache_key \<Rightarrow> time_range \<Rightarrow> bool" where
  "covered s k visible =
     ((case cache s k of Some w \<Rightarrow> range_within visible (window_range w) | None \<Rightarrow> False)
      \<or> (case inflight s k of Some f \<Rightarrow> range_within visible (fetch_window f) | None \<Rightarrow> False))"

definition is_latest :: "cache_state \<Rightarrow> cache_key \<Rightarrow> nat \<Rightarrow> bool" where
  "is_latest s k i = (case inflight s k of Some f \<Rightarrow> fetch_id f = i | None \<Rightarrow> False)"

fun cache_step :: "nat \<Rightarrow> cache_event \<Rightarrow> cache_state \<Rightarrow> cache_state" where
  "cache_step factor (Get k visible) s =
     (if covered s k visible then s
      else
        (let f = \<lparr>fetch_id = length (executions s), fetch_key = k,
                  fetch_window = overscan factor visible\<rparr>
         in s\<lparr>inflight := (inflight s)(k \<mapsto> f), executions := executions s @ [f]\<rparr>))"
| "cache_step factor (Complete k i rows) s =
     (case inflight s k of
        None \<Rightarrow> s
      | Some f \<Rightarrow>
          if fetch_id f = i
          then s\<lparr>cache := (cache s)(k \<mapsto> \<lparr>window_range = fetch_window f, window_rows = rows\<rparr>),
                 inflight := (inflight s)(k := None)\<rparr>
          else s)"
| "cache_step factor (Fail k i) s =
     (if is_latest s k i then s\<lparr>inflight := (inflight s)(k := None)\<rparr> else s)"
| "cache_step factor (Destroy k) s = s\<lparr>inflight := (inflight s)(k := None)\<rparr>"

definition cache_run :: "nat \<Rightarrow> cache_event list \<Rightarrow> cache_state \<Rightarrow> cache_state" where
  "cache_run factor es s = fold (cache_step factor) es s"

text \<open>
  The invariant of the cache: the fetch in flight for a key is the last one issued for
  that key.
\<close>

definition cache_inv :: "cache_state \<Rightarrow> bool" where
  "cache_inv s =
     (\<forall>k f. inflight s k = Some f \<longrightarrow>
        (\<forall>j < length (executions s). fetch_key (executions s ! j) = k \<longrightarrow> j \<le> fetch_id f))"

text \<open>Fetch \<open>a\<close> was issued for key \<open>k\<close> before fetch \<open>b\<close> was, in the state's log.\<close>

definition issued_before :: "cache_state \<Rightarrow> cache_key \<Rightarrow> nat \<Rightarrow> nat \<Rightarrow> bool" where
  "issued_before s k a b =
     (a < b \<and> b < length (executions s)
      \<and> fetch_key (executions s ! a) = k \<and> fetch_key (executions s ! b) = k)"

section \<open>Concrete inputs\<close>

text \<open>The states, selections and registries at which the theorems below are instantiated.\<close>

definition example_ctx :: "string option \<Rightarrow> ctx_state" where
  "example_ctx input = \<lparr>sidebarVisible = True, promptInput = input, calls = []\<rparr>"

text \<open>A symbol: defined, not a bigint, and a TypeError for a template literal.\<close>

definition a_symbol :: js_value where
  "a_symbol = JOther (Inl TypeError)"

definition core_ids :: "string list" where
  "core_ids =
     [''dev.perfetto.CoreCommands#ToggleLeftSidebar'',
      ''dev.perfetto.CoreCommands#RunQueryAllProcesses'',
      ''dev.perfetto.CoreCommands#RunQueryCpuTimeByProcess'',
      ''dev.perfetto.CoreCommands#RunQueryCyclesByStateByCpu'',
      ''dev.perfetto.CoreCommands#RunQueryCyclesByCpuByProcess'',
      ''dev.perfetto.CoreCommands#RunQueryHeapGraphBytesPerType'',
      ''dev.perfetto.CoreCommands#DebugSqlPerformance'',
      ''dev.perfetto.CoreCommands#PinFtraceTracks'',
      ''dev.perfetto.CoreCommands#UnpinAllTracks'',
      ''dev.perfetto.CoreCommands#PanToTimestamp'']"

definition debug_selection :: "nat selection" where
  "debug_selection =
     \<lparr>kind = ''GENERIC_SLICE'',
      detailsPanelConfig =
        Some \<lparr>panel_kind = ''dev.perfetto.DebugSliceDetailsTab'', panel_config = 7\<rparr>\<rparr>"

definition note_selection :: "nat selection" where
  "note_selection = \<lparr>kind = ''NOTE'', detailsPanelConfig = None\<rparr>"

definition foreign_slice_selection :: "nat selection" where
  "foreign_slice_selection =
     \<lparr>kind = ''GENERIC_SLICE'',
      detailsPanelConfig = Some \<lparr>panel_kind = ''some.other.Tab'', panel_config = 7\<rparr>\<rparr>"

text \<open>A machine with a 256 MiB limit on arrays, and one that provides every array.\<close>

definition small_heap :: "unit jvm" where
  "small_heap = \<lparr>can_allocate = (\<lambda>n. n \<le> 268435456), events = []\<rparr>"

definition large_heap :: "unit jvm" where
  "large_heap = \<lparr>can_allocate = (\<lambda>n. True), events = []\<rparr>"

definition slice_row :: "int \<Rightarrow> int \<Rightarrow> string \<Rightarrow> QueryResultRow" where
  "slice_row t d n = [(''ts'', IntVal t), (''dur'', IntVal d), (''name'', StringVal n)]"



definition key1 :: cache_key where
  "key1 = (''q1'', ''perfetto.DebugSlices'')"

definition rowsA :: "QueryResultRow list" where
  "rowsA = [slice_row 10 1 ''old'']"

definition rowsB :: "QueryResultRow list" where
  "rowsB = [slice_row 500 2 ''new'']"

text \<open>
  Fetch 0 is issued for the range [0, 100]; the view moves to [400, 600], outside the
  window of fetch 0, so fetch 1 is issued for the same key; fetch 1 completes first.
\<close>

definition race_events :: "cache_event list" where
  "race_events =
     [Get key1 \<lparr>range_start = 0, range_end = 100\<rparr>,
      Get key1 \<lparr>range_start = 400, range_end = 600\<rparr>,
      Complete key1 1 rowsB]"

section \<open>Host state and registration lemmas\<close>

lemma called_simps:
  "calls (called c s) = calls s @ [c]"
  "sidebarVisible (called c s) = sidebarVisible s"
  "promptInput (called c s) = promptInput s"
  by (simp_all add: called_def)

lemma pans_append: "pans (xs @ ys) = pans xs @ pans ys"
  by (simp add: pans_def)

lemma alerts_append: "alerts (xs @ ys) = alerts xs @ alerts ys"
  by (simp add: alerts_def)

lemma prompts_append: "prompts (xs @ ys) = prompts xs @ prompts ys"
  by (simp add: prompts_def)

lemmas command_defs =
  ToggleLeftSidebar_def RunQueryAllProcesses_def RunQueryCpuTimeByProcess_def
  RunQueryCyclesByStateByCpu_def RunQueryCyclesByCpuByProcess_def
  RunQueryHeapGraphBytesPerType_def DebugSqlPerformance_def PinFtraceTracks_def
  UnpinAllTracks_def PanToTimestamp_def

lemma onTraceLoad_appends:
  "coreCommands_onTraceLoad imp registered =
     registered @ [ToggleLeftSidebar, RunQueryAllProcesses, RunQueryCpuTimeByProcess,
        RunQueryCyclesByStateByCpu, RunQueryCyclesByCpuByProcess, RunQueryHeapGraphBytesPerType,
        DebugSqlPerformance, PinFtraceTracks, UnpinAllTracks, PanToTimestamp imp]"
  by (simp add: coreCommands_onTraceLoad_def registerCommand_def)

lemma onTraceLoad_ids: "map cmd_id (coreCommands_onTraceLoad imp []) = core_ids"
  by (simp add: onTraceLoad_appends command_defs core_ids_def)

lemma core_ids_distinct: "distinct core_ids"
  by (simp add: core_ids_def)

lemma core_ids_prefix: "\<forall>i \<in> set core_ids. prefix ''dev.perfetto.CoreCommands#'' i"
  by (simp add: core_ids_def)

lemma onTraceLoad_prefix:
  "\<forall>c \<in> set (coreCommands_onTraceLoad imp []). prefix ''dev.perfetto.CoreCommands#'' (cmd_id c)"
proof
  fix c
  assume "c \<in> set (coreCommands_onTraceLoad imp [])"
  then have "cmd_id c \<in> set (map cmd_id (coreCommands_onTraceLoad imp []))"
    by simp
  then have "cmd_id c \<in> set core_ids"
    by (simp only: onTraceLoad_ids)
  then show "prefix ''dev.perfetto.CoreCommands#'' (cmd_id c)"
    using core_ids_prefix by blast
qed

lemma onTraceLoad_names: "\<forall>c \<in> set (coreCommands_onTraceLoad imp []). cmd_name c \<noteq> []"
  by (simp add: onTraceLoad_appends command_defs)

lemma onTraceLoad_hotkeys:
  "map defaultHotkey (coreCommands_onTraceLoad imp []) =
     [Some ''!Mod+B'', None, None, None, None, None, None, None, None, None]"
  by (simp add: onTraceLoad_appends command_defs)

section \<open>The claims about dev.perfetto.CoreCommands\<close>

text \<open>
  C1. Whatever string the user enters at the prompt of 'Pan To Timestamp', if \<open>BigInt\<close>
  throws on it then \<open>promptForTimestamp\<close> shows the alert "<input> is not an integer"
  and returns \<open>undefined\<close>, and the command, run without an argument, returns normally
  having called \<open>window.prompt\<close> and \<open>window.alert\<close> and nothing else: the log of
  \<open>ctx.timeline.panToTimestamp\<close> calls is what it was.
\<close>

theorem non_integer_input_alerts_and_does_not_pan:
  assumes "promptInput s = Some str" and "BigInt imp str = Inl e" and "\<not> exists_js tsRaw"
  shows "promptForTimestamp imp message s =
           (None, called (Window_alert (str @ '' is not an integer''))
                    (called (Window_prompt message) s))
       \<and> PanToTimestamp_callback imp tsRaw s =
           (Inr (), called (Window_alert (str @ '' is not an integer''))
                      (called (Window_prompt ''Enter a timestamp'') s))
       \<and> alerts (calls (snd (PanToTimestamp_callback imp tsRaw s))) =
           alerts (calls s) @ [str @ '' is not an integer'']
       \<and> pans (calls (snd (PanToTimestamp_callback imp tsRaw s))) = pans (calls s)"
proof -
  have p: "promptForTimestamp imp message s =
           (None, called (Window_alert (str @ '' is not an integer''))
                    (called (Window_prompt message) s))"
    for message
    using assms(1,2) by (simp add: promptForTimestamp_def window_prompt_def window_alert_def)
  have c: "PanToTimestamp_callback imp tsRaw s =
           (Inr (), called (Window_alert (str @ '' is not an integer''))
                      (called (Window_prompt ''Enter a timestamp'') s))"
    using assms(3) by (simp add: PanToTimestamp_callback_def p)
  show ?thesis
    by (simp add: p c called_simps pans_append alerts_append pans_def alerts_def)
qed

theorem non_integer_input_alerts_and_does_not_pan_witness:
  "promptInput (example_ctx (Some ''12a'')) = Some ''12a''
   \<and> BigInt reference_externals ''12a'' = Inl SyntaxError
   \<and> \<not> exists_js JUndefined
   \<and> promptForTimestamp reference_externals ''Enter a timestamp'' (example_ctx (Some ''12a'')) =
       (None, \<lparr>sidebarVisible = True, promptInput = Some ''12a'',
                calls = [Window_prompt ''Enter a timestamp'',
                         Window_alert ''12a is not an integer'']\<rparr>)
   \<and> PanToTimestamp_callback reference_externals JUndefined (example_ctx (Some ''12a'')) =
       (Inr (), \<lparr>sidebarVisible = True, promptInput = Some ''12a'',
                  calls = [Window_prompt ''Enter a timestamp'',
                           Window_alert ''12a is not an integer'']\<rparr>)
   \<and> pans (calls (snd (PanToTimestamp_callback reference_externals JUndefined
                         (example_ctx (Some ''12a''))))) = []"
proof -
  have a: "promptInput (example_ctx (Some ''12a'')) = Some ''12a''"
    by (simp add: example_ctx_def)
  have b: "BigInt reference_externals ''12a'' = Inl SyntaxError"
    by (simp add: reference_externals_def) code_simp
  have c: "\<not> exists_js JUndefined"
    by (simp add: exists_js_def)
  show ?thesis
    using non_integer_input_alerts_and_does_not_pan [OF a b c, of "''Enter a timestamp''"] a b c
    by (simp add: called_def example_ctx_def pans_def)
qed

text \<open>
  C5. The callback of 'Toggle left sidebar' asks \<open>ctx.sidebar.isVisible()\<close> and then
  calls \<open>ctx.sidebar.hide()\<close> when the answer was true and \<open>ctx.sidebar.show()\<close>
  otherwise; it returns normally, and the sidebar's visibility after the call is the
  negation of its visibility before.
\<close>

theorem toggle_left_sidebar_inverts_visibility:
  "cmd_name ToggleLeftSidebar = ''Toggle left sidebar''
   \<and> callback ToggleLeftSidebar args s =
       (Inr (), s\<lparr>sidebarVisible := \<not> sidebarVisible s,
                  calls := calls s @ [Sidebar_isVisible,
                                      if sidebarVisible s then Sidebar_hide else Sidebar_show]\<rparr>)
   \<and> sidebarVisible (snd (callback ToggleLeftSidebar args s)) = (\<not> sidebarVisible s)"
  by (simp add: ToggleLeftSidebar_def ToggleLeftSidebar_callback_def sidebar_isVisible_def
      sidebar_hide_def sidebar_show_def called_def)

theorem toggle_left_sidebar_twice:
  "sidebarVisible (snd (callback ToggleLeftSidebar JUndefined
      (snd (callback ToggleLeftSidebar JUndefined (example_ctx None))))) = True
   \<and> calls (snd (callback ToggleLeftSidebar JUndefined
      (snd (callback ToggleLeftSidebar JUndefined (example_ctx None))))) =
     [Sidebar_isVisible, Sidebar_hide, Sidebar_isVisible, Sidebar_show]"
  using toggle_left_sidebar_inverts_visibility [of JUndefined "example_ctx None"]
    toggle_left_sidebar_inverts_visibility
      [of JUndefined "snd (callback ToggleLeftSidebar JUndefined (example_ctx None))"]
  by (simp add: example_ctx_def)

text \<open>
  C8, as the code has it. Run with a defined argument that is not a bigint, the callback
  of 'Pan To Timestamp' throws and leaves the host untouched (no pan, no prompt). What
  it throws is \<open>Error("<value> is not a bigint")\<close> when the template literal renders
  the value as a string; when the conversion to a string itself throws (a symbol, an
  object whose \<open>toString\<close> throws) the callback throws that error. Run with a bigint, it
  pans to \<open>Time.fromRaw\<close> of it and shows no prompt.
\<close>

theorem pan_to_timestamp_argument:
  "(exists_js tsRaw \<and> (\<forall>n. tsRaw \<noteq> JBigInt n) \<longrightarrow>
      (\<exists>e. PanToTimestamp_callback imp tsRaw s = (Inl e, s)
          \<and> (\<forall>str. template_string tsRaw = Inr str \<longrightarrow> e = Error (str @ '' is not a bigint''))
          \<and> (\<forall>e'. template_string tsRaw = Inl e' \<longrightarrow> e = e')))
   \<and> PanToTimestamp_callback imp (JBigInt n) s =
       (Inr (), called (Timeline_panToTimestamp (Time_fromRaw imp n)) s)
   \<and> prompts (calls (snd (PanToTimestamp_callback imp (JBigInt n) s))) = prompts (calls s)
   \<and> pans (calls (snd (PanToTimestamp_callback imp (JBigInt n) s))) =
       pans (calls s) @ [Time_fromRaw imp n]"
proof -
  have big: "PanToTimestamp_callback imp (JBigInt n) s =
       (Inr (), called (Timeline_panToTimestamp (Time_fromRaw imp n)) s)"
    by (simp add: PanToTimestamp_callback_def exists_js_def timeline_panToTimestamp_def)
  have other: "\<exists>e. PanToTimestamp_callback imp tsRaw s = (Inl e, s)
          \<and> (\<forall>str. template_string tsRaw = Inr str \<longrightarrow> e = Error (str @ '' is not a bigint''))
          \<and> (\<forall>e'. template_string tsRaw = Inl e' \<longrightarrow> e = e')"
    if "exists_js tsRaw" and "\<forall>n. tsRaw \<noteq> JBigInt n"
  proof (cases tsRaw)
    case (JOther r)
    then show ?thesis
      by (cases r) (simp_all add: PanToTimestamp_callback_def exists_js_def template_string_def)
  qed (use that in \<open>simp_all add: exists_js_def\<close>)
  show ?thesis
    using other by (simp add: big called_simps pans_append prompts_append pans_def prompts_def)
qed

theorem pan_to_timestamp_argument_witness:
  "exists_js (JOther (Inr ''12'')) \<and> template_string (JOther (Inr ''12'')) = Inr ''12''
   \<and> PanToTimestamp_callback reference_externals (JOther (Inr ''12'')) (example_ctx None) =
       (Inl (Error ''12 is not a bigint''), example_ctx None)
   \<and> PanToTimestamp_callback reference_externals (JBigInt 12) (example_ctx None) =
       (Inr (), \<lparr>sidebarVisible = True, promptInput = None,
                  calls = [Timeline_panToTimestamp 12]\<rparr>)"
proof -
  have a: "exists_js (JOther (Inr ''12''))"
    by (simp add: exists_js_def)
  have b: "\<forall>n. JOther (Inr ''12'') \<noteq> JBigInt n"
    by simp
  have c: "template_string (JOther (Inr ''12'')) = Inr ''12''"
    by (simp add: template_string_def)
  from pan_to_timestamp_argument
    [of "JOther (Inr ''12'')" reference_externals "example_ctx None" 12] a b c
  show ?thesis
    by (auto simp add: called_def example_ctx_def reference_externals_def)
qed

text \<open>
  The claim promises the "is not a bigint" error for every defined argument that is not
  a bigint. A symbol is such an argument, and the template literal that builds the
  message throws a TypeError on it: that TypeError is what leaves the callback.
\<close>

theorem pan_to_timestamp_symbol_counterexample:
  "exists_js a_symbol
   \<and> template_string a_symbol = Inl TypeError
   \<and> PanToTimestamp_callback reference_externals a_symbol (example_ctx None) =
       (Inl TypeError, example_ctx None)"
  by (simp add: a_symbol_def exists_js_def template_string_def PanToTimestamp_callback_def)

text \<open>
  C9, as the code has it. \<open>onTraceLoad\<close> registers ten commands, not nine. Their ids are
  pairwise distinct, each begins with \<open>dev.perfetto.CoreCommands#\<close>, each registration
  carries an id, a non-empty name and a callback, and the only one with a
  \<open>defaultHotkey\<close> is ToggleLeftSidebar (\<open>!Mod+B\<close>). Commands registered before are kept.
\<close>

theorem core_commands_registers_ten:
  "length (coreCommands_onTraceLoad imp []) = 10
   \<and> distinct (map cmd_id (coreCommands_onTraceLoad imp []))
   \<and> (\<forall>c \<in> set (coreCommands_onTraceLoad imp []).
        prefix ''dev.perfetto.CoreCommands#'' (cmd_id c) \<and> cmd_name c \<noteq> [])
   \<and> filter (\<lambda>c. defaultHotkey c \<noteq> None) (coreCommands_onTraceLoad imp []) = [ToggleLeftSidebar]
   \<and> defaultHotkey ToggleLeftSidebar = Some ''!Mod+B''
   \<and> coreCommands_onTraceLoad imp registered = registered @ coreCommands_onTraceLoad imp []"
proof -
  have len: "length (coreCommands_onTraceLoad imp []) = 10"
    by (simp add: onTraceLoad_appends)
  have dist: "distinct (map cmd_id (coreCommands_onTraceLoad imp []))"
    by (simp only: onTraceLoad_ids core_ids_distinct)
  have both: "\<forall>c \<in> set (coreCommands_onTraceLoad imp []).
        prefix ''dev.perfetto.CoreCommands#'' (cmd_id c) \<and> cmd_name c \<noteq> []"
    using onTraceLoad_prefix [of imp] onTraceLoad_names [of imp]
    by (intro ballI conjI) (erule bspec, assumption)+
  have hot: "filter (\<lambda>c. defaultHotkey c \<noteq> None) (coreCommands_onTraceLoad imp [])
               = [ToggleLeftSidebar]"
    by (simp add: onTraceLoad_appends command_defs)
  have hk: "defaultHotkey ToggleLeftSidebar = Some ''!Mod+B''"
    by (simp add: ToggleLeftSidebar_def)
  have app: "coreCommands_onTraceLoad imp registered = registered @ coreCommands_onTraceLoad imp []"
    by (simp add: onTraceLoad_appends)
  show ?thesis
    by (rule conjI [OF len conjI [OF dist conjI [OF both conjI [OF hot conjI [OF hk app]]]]])
qed

theorem core_commands_registers_ten_witness:
  "length (coreCommands_onTraceLoad reference_externals []) = 10
   \<and> map cmd_id (coreCommands_onTraceLoad reference_externals []) = core_ids
   \<and> distinct (map cmd_id (coreCommands_onTraceLoad reference_externals []))
   \<and> PanToTimestamp reference_externals \<in> set (coreCommands_onTraceLoad reference_externals [])
   \<and> prefix ''dev.perfetto.CoreCommands#'' (cmd_id (PanToTimestamp reference_externals))
   \<and> map defaultHotkey (coreCommands_onTraceLoad reference_externals []) =
       [Some ''!Mod+B'', None, None, None, None, None, None, None, None, None]"
proof -
  note t = core_commands_registers_ten [of reference_externals "[]"]
  have m: "PanToTimestamp reference_externals \<in> set (coreCommands_onTraceLoad reference_externals [])"
    by (simp add: onTraceLoad_appends)
  have p: "prefix ''dev.perfetto.CoreCommands#'' (cmd_id (PanToTimestamp reference_externals))"
    using t m by blast
  show ?thesis
    using t m p by (simp only: onTraceLoad_ids onTraceLoad_hotkeys simp_thms)
qed

text \<open>The claim counts nine registered ids; the plugin registers ten.\<close>

theorem core_commands_nine_ids_counterexample:
  "length (map cmd_id (coreCommands_onTraceLoad reference_externals [])) \<noteq> 9"
  by (simp add: onTraceLoad_appends)

text \<open>
  C10. When the user cancels the prompt (\<open>window.prompt\<close> returns \<open>null\<close>),
  \<open>promptForTimestamp\<close> returns \<open>undefined\<close> and its only host call is the prompt: no
  alert. The command, run without an argument, returns normally with no alert and no pan.
\<close>

theorem cancelled_prompt_is_silent:
  assumes "promptInput s = None" and "\<not> exists_js tsRaw"
  shows "promptForTimestamp imp message s = (None, called (Window_prompt message) s)
       \<and> alerts (calls (snd (promptForTimestamp imp message s))) = alerts (calls s)
       \<and> PanToTimestamp_callback imp tsRaw s =
           (Inr (), called (Window_prompt ''Enter a timestamp'') s)
       \<and> alerts (calls (snd (PanToTimestamp_callback imp tsRaw s))) = alerts (calls s)
       \<and> pans (calls (snd (PanToTimestamp_callback imp tsRaw s))) = pans (calls s)"
proof -
  have p: "promptForTimestamp imp message s = (None, called (Window_prompt message) s)"
    for message
    using assms(1) by (simp add: promptForTimestamp_def window_prompt_def)
  have c: "PanToTimestamp_callback imp tsRaw s =
             (Inr (), called (Window_prompt ''Enter a timestamp'') s)"
    using assms(2) by (simp add: PanToTimestamp_callback_def p)
  show ?thesis
    by (simp add: p c called_simps pans_append alerts_append pans_def alerts_def)
qed

theorem cancelled_prompt_is_silent_witness:
  "promptInput (example_ctx None) = None \<and> \<not> exists_js JUndefined
   \<and> promptForTimestamp reference_externals ''Enter a timestamp'' (example_ctx None) =
       (None, \<lparr>sidebarVisible = True, promptInput = None,
                calls = [Window_prompt ''Enter a timestamp'']\<rparr>)
   \<and> PanToTimestamp_callback reference_externals JUndefined (example_ctx None) =
       (Inr (), \<lparr>sidebarVisible = True, promptInput = None,
                  calls = [Window_prompt ''Enter a timestamp'']\<rparr>)
   \<and> alerts (calls (snd (PanToTimestamp_callback reference_externals JUndefined
                           (example_ctx None)))) = []
   \<and> pans (calls (snd (PanToTimestamp_callback reference_externals JUndefined
                         (example_ctx None)))) = []"
proof -
  have a: "promptInput (example_ctx None) = None"
    by (simp add: example_ctx_def)
  have b: "\<not> exists_js JUndefined"
    by (simp add: exists_js_def)
  show ?thesis
    using cancelled_prompt_is_silent [OF a b, of reference_externals "''Enter a timestamp''"] a b
    by (simp add: called_def example_ctx_def pans_def alerts_def)
qed

section \<open>The claims about perfetto.DebugSlices\<close>

text \<open>
  C4. On a selection of the declared type the details-panel tab factory never throws. It
  returns a DebugSliceDetailsTab (built from the selection's configuration, the engine
  and a fresh uuid) when \<open>selection.kind\<close> is \<open>GENERIC_SLICE\<close> and
  \<open>selection.detailsPanelConfig.kind\<close> is \<open>DebugSliceDetailsTab.kind\<close>, and \<open>undefined\<close>
  for every other selection.
\<close>

theorem tab_factory_only_for_debug_slice:
  assumes "well_typed_selection sel"
  shows "(\<forall>dpc. kind sel = ''GENERIC_SLICE'' \<and> detailsPanelConfig sel = Some dpc
              \<and> panel_kind dpc = K \<longrightarrow>
            tabFactory K engine uuid sel =
              Inr (Some (DebugSliceDetailsTab (panel_config dpc) engine uuid)))
       \<and> (\<not> (kind sel = ''GENERIC_SLICE''
              \<and> map_option panel_kind (detailsPanelConfig sel) = Some K) \<longrightarrow>
            tabFactory K engine uuid sel = Inr None)
       \<and> (\<forall>e. tabFactory K engine uuid sel \<noteq> Inl e)"
  using assms
  by (auto simp add: tabFactory_def well_typed_selection_def split: option.splits)

theorem tab_factory_only_for_debug_slice_witness:
  "well_typed_selection debug_selection \<and> well_typed_selection note_selection
   \<and> well_typed_selection foreign_slice_selection
   \<and> tabFactory ''dev.perfetto.DebugSliceDetailsTab'' (0::nat) ''uuid-1'' debug_selection =
       Inr (Some (DebugSliceDetailsTab 7 0 ''uuid-1''))
   \<and> tabFactory ''dev.perfetto.DebugSliceDetailsTab'' (0::nat) ''uuid-1'' note_selection =
       Inr None
   \<and> tabFactory ''dev.perfetto.DebugSliceDetailsTab'' (0::nat) ''uuid-1''
       foreign_slice_selection = Inr None"
proof -
  have a: "well_typed_selection debug_selection"
    and b: "well_typed_selection note_selection"
    and c: "well_typed_selection foreign_slice_selection"
    by (simp_all add: well_typed_selection_def debug_selection_def note_selection_def
        foreign_slice_selection_def)
  show ?thesis
    using
      tab_factory_only_for_debug_slice
        [OF a, of "''dev.perfetto.DebugSliceDetailsTab''" "0::nat" "''uuid-1''"]
      tab_factory_only_for_debug_slice
        [OF b, of "''dev.perfetto.DebugSliceDetailsTab''" "0::nat" "''uuid-1''"]
      tab_factory_only_for_debug_slice
        [OF c, of "''dev.perfetto.DebugSliceDetailsTab''" "0::nat" "''uuid-1''"]
      a b c
    by (simp add: debug_selection_def note_selection_def foreign_slice_selection_def)
qed

text \<open>
  What \<open>onTraceLoad\<close> registers: two tracks, in this order, the slice track under
  \<open>DEBUG_SLICE_TRACK_URI\<close> with the factory of DebugTrackV2 and the counter track
  under \<open>perfetto.DebugCounter\<close> with the factory of DebugCounterTrack, and one details
  panel, the adapter around the tab factory. Whether the two URIs differ is decided by
  the value of \<open>DEBUG_SLICE_TRACK_URI\<close>, which \<open>frontend/debug_tracks\<close> defines: the
  plugin does not compare them.
\<close>

lemma debug_plugin_registers:
  "tracks (DebugTrackPlugin_onTraceLoad U K engine r) =
     tracks r @ [\<lparr>uri = U, track = DebugTrackV2 engine\<rparr>,
                 \<lparr>uri = ''perfetto.DebugCounter'', track = DebugCounterTrack engine\<rparr>]
   \<and> detailsPanels (DebugTrackPlugin_onTraceLoad U K engine r) =
       detailsPanels r @ [BottomTabToSCSAdapter (tabFactory K engine)]"
  by (simp add: DebugTrackPlugin_onTraceLoad_def registerTrack_def registerDetailsPanel_def
      DEBUG_COUNTER_TRACK_URI_def Let_def)

section \<open>The claim about JavaOomActivity\<close>

text \<open>Outside a \<open>try\<close> the failed allocation would end the computation with the error.\<close>

lemma allocation_alone_throws:
  "\<not> can_allocate m Integer_MAX_VALUE \<Longrightarrow>
     jbind (new_byte_array Integer_MAX_VALUE) (\<lambda>alloc. jreturn ()) m =
       (Inl OutOfMemoryError,
        m\<lparr>events := events m @ [NewByteArray Integer_MAX_VALUE, Thrown OutOfMemoryError]\<rparr>)"
  by (simp add: jbind_def new_byte_array_def jthrow_def happened_def Integer_MAX_VALUE_def Let_def)

text \<open>
  C6. \<open>onCreate\<close> calls \<open>super.onCreate\<close>, starts one thread for the lambda and returns
  normally; it asks for no array itself. The started thread asks for one byte array of
  \<open>Integer.MAX_VALUE\<close> = 2147483647 elements. On a machine that cannot provide it the
  allocation throws OutOfMemoryError, the \<open>catch\<close> clause of the lambda catches it and
  the thread's \<open>run\<close> returns; on a machine that can, \<open>run\<close> returns after the
  allocation. In neither case does a throwable leave the thread or reach \<open>onCreate\<close>.
\<close>

theorem java_oom_activity_onCreate:
  "onCreate state m =
     (Inr (), m\<lparr>events := events m @ [Activity_onCreate state, Thread_start OomLambda]\<rparr>)
   \<and> (\<not> can_allocate t 2147483647 \<longrightarrow>
        thread_run OomLambda t =
          (Returned, t\<lparr>events := events t @ [NewByteArray 2147483647, Thrown OutOfMemoryError,
                                              Caught OutOfMemoryError]\<rparr>))
   \<and> (can_allocate t 2147483647 \<longrightarrow>
        thread_run OomLambda t = (Returned, t\<lparr>events := events t @ [NewByteArray 2147483647]\<rparr>))"
proof -
  have main: "onCreate state m =
     (Inr (), m\<lparr>events := events m @ [Activity_onCreate state, Thread_start OomLambda]\<rparr>)"
    by (simp add: onCreate_def jbind_def super_onCreate_def new_Thread_start_def jreturn_def
        happened_def)
  have oom: "thread_run OomLambda t =
          (Returned, t\<lparr>events := events t @ [NewByteArray 2147483647, Thrown OutOfMemoryError,
                                              Caught OutOfMemoryError]\<rparr>)"
    if "\<not> can_allocate t 2147483647"
    using that allocation_alone_throws [of t]
    by (simp add: thread_run_def oom_lambda_def try_catch_def jreturn_def happened_def
        Integer_MAX_VALUE_def)
  have fits: "thread_run OomLambda t = (Returned, t\<lparr>events := events t @ [NewByteArray 2147483647]\<rparr>)"
    if "can_allocate t 2147483647"
    using that
    by (simp add: thread_run_def oom_lambda_def try_catch_def jbind_def new_byte_array_def
        jreturn_def happened_def Integer_MAX_VALUE_def Let_def)
  show ?thesis
    using main oom fits by blast
qed

theorem java_oom_activity_onCreate_witness:
  "\<not> can_allocate small_heap 2147483647 \<and> can_allocate large_heap 2147483647
   \<and> fst (onCreate () small_heap) = Inr ()
   \<and> events (snd (onCreate () small_heap)) = [Activity_onCreate (), Thread_start OomLambda]
   \<and> started_threads (events (snd (onCreate () small_heap))) = [OomLambda]
   \<and> fst (thread_run OomLambda (snd (onCreate () small_heap))) = Returned
   \<and> events (snd (thread_run OomLambda (snd (onCreate () small_heap)))) =
       [Activity_onCreate (), Thread_start OomLambda,
        NewByteArray 2147483647, Thrown OutOfMemoryError, Caught OutOfMemoryError]
   \<and> thread_run OomLambda large_heap =
       (Returned, \<lparr>can_allocate = (\<lambda>n. True), events = [NewByteArray 2147483647]\<rparr>)"
proof -
  have s: "\<not> can_allocate small_heap 2147483647" and l: "can_allocate large_heap 2147483647"
    by (simp_all add: small_heap_def large_heap_def)
  have s': "\<not> can_allocate (snd (onCreate () small_heap)) 2147483647"
    using java_oom_activity_onCreate [of "()" small_heap small_heap] s by simp
  show ?thesis
    using java_oom_activity_onCreate [of "()" small_heap "snd (onCreate () small_heap)"]
      java_oom_activity_onCreate [of "()" small_heap large_heap] s l s'
    by (simp add: started_threads_def) (simp add: small_heap_def large_heap_def)
qed

section \<open>The claim about the validator\<close>

subsection \<open>The checks decide the contract\<close>








subsection \<open>The claim\<close>





section \<open>The claim about the track data cache\<close>

lemma cache_inv_empty: "cache_inv empty_cache"
  by (simp add: cache_inv_def empty_cache_def)

lemma cache_inv_step: "cache_inv s \<Longrightarrow> cache_inv (cache_step factor e s)"
proof (cases e)
  case (Get k visible)
  assume inv: "cache_inv s"
  show ?thesis
  proof (cases "covered s k visible")
    case True
    with Get inv show ?thesis by simp
  next
    case False
    with Get inv show ?thesis
      by (auto simp add: cache_inv_def Let_def nth_append less_Suc_eq split: if_splits)
  qed
next
  case (Complete k i rows)
  assume "cache_inv s"
  with Complete show ?thesis
    by (auto simp add: cache_inv_def split: option.splits if_splits)
next
  case (Fail k i)
  assume "cache_inv s"
  with Fail show ?thesis
    by (auto simp add: cache_inv_def split: if_splits)
next
  case (Destroy k)
  assume "cache_inv s"
  with Destroy show ?thesis
    by (auto simp add: cache_inv_def split: if_splits)
qed

lemma cache_inv_fold: "cache_inv s \<Longrightarrow> cache_inv (fold (cache_step factor) es s)"
  by (induction es arbitrary: s) (simp_all add: cache_inv_step)

lemma cache_inv_run: "cache_inv (cache_run factor es empty_cache)"
  by (simp add: cache_run_def cache_inv_fold cache_inv_empty)

text \<open>
  C2. In every state the cache reaches from empty, if fetch \<open>a\<close> was issued before fetch
  \<open>b\<close> for the key \<open>k\<close>, then \<open>a\<close> is not the latest request in flight for \<open>k\<close> and its
  completion, whenever it arrives and whatever rows it brings, is discarded: the state,
  and with it the window cached for \<open>k\<close> (the result of \<open>b\<close>, once committed), stays as
  it is.
\<close>

theorem late_completion_is_discarded:
  assumes "s = cache_run factor es empty_cache" and "issued_before s k a b"
  shows "cache_step factor (Complete k a rows) s = s
       \<and> cache (cache_step factor (Complete k a rows) s) k = cache s k
       \<and> \<not> is_latest s k a"
proof -
  have inv: "cache_inv s"
    using assms(1) by (simp add: cache_inv_run)
  have ab: "a < b" and b: "b < length (executions s)"
    and kb: "fetch_key (executions s ! b) = k"
    using assms(2) by (simp_all add: issued_before_def)
  have not_latest: "fetch_id f \<noteq> a" if "inflight s k = Some f" for f
  proof -
    from inv that b kb have "b \<le> fetch_id f"
      unfolding cache_inv_def by blast
    with ab show ?thesis by simp
  qed
  then have d: "cache_step factor (Complete k a rows) s = s"
    by (cases "inflight s k") simp_all
  have l: "\<not> is_latest s k a"
    using not_latest by (cases "inflight s k") (simp_all add: is_latest_def)
  show ?thesis
    using d l by simp
qed

theorem late_completion_is_discarded_witness:
  "issued_before (cache_run 2 race_events empty_cache) key1 0 1
   \<and> map_option window_rows (cache (cache_run 2 race_events empty_cache) key1) = Some rowsB
   \<and> map_option window_rows
       (cache (cache_step 2 (Complete key1 0 rowsA) (cache_run 2 race_events empty_cache)) key1)
       = Some rowsB
   \<and> map fetch_id (executions (cache_run 2 race_events empty_cache)) = [0, 1]"
proof -
  have e: "executions (cache_run 2 race_events empty_cache) =
      [\<lparr>fetch_id = 0, fetch_key = key1,
        fetch_window = \<lparr>range_start = - 50, range_end = 150\<rparr>\<rparr>,
       \<lparr>fetch_id = 1, fetch_key = key1,
        fetch_window = \<lparr>range_start = 300, range_end = 700\<rparr>\<rparr>]"
    by (simp add: cache_run_def race_events_def empty_cache_def covered_def overscan_def
        range_within_def Let_def)
  have c: "map_option window_rows (cache (cache_run 2 race_events empty_cache) key1) = Some rowsB"
    by (simp add: cache_run_def race_events_def empty_cache_def covered_def overscan_def
        range_within_def Let_def)
  have i: "issued_before (cache_run 2 race_events empty_cache) key1 0 1"
    by (simp add: issued_before_def e)
  show ?thesis
    using late_completion_is_discarded [OF refl i, of rowsA] c i
    by (simp add: e)
qed

end
